theory Spec2Isabelle
  imports Main "HOL-Library.Monad_Syntax"
begin

section \<open>Shared vocabulary of the stability patterns\<close>

text \<open>
  Go's \<open>error\<close> values that occur in the decorators: \<open>errors.New msg\<close>, the wrapper built by
  \<open>fmt.Errorf("...%w", err)\<close> (its message and the error it wraps), and the two terminal
  errors of a \<open>context.Context\<close>. \<open>nil\<close> is \<open>None\<close> of \<open>error option\<close>.
\<close>

datatype error =
    ErrorString string
  | WrapError string error
  | Canceled
  | DeadlineExceeded

fun Error :: "error \<Rightarrow> string" where
  "Error (ErrorString s) = s"
| "Error (WrapError msg e) = msg"
| "Error Canceled = ''context canceled''"
| "Error DeadlineExceeded = ''context deadline exceeded''"

fun Unwrap :: "error \<Rightarrow> error option" where
  "Unwrap (WrapError msg e) = Some e"
| "Unwrap e = None"

definition Errorf_w :: "string \<Rightarrow> error \<Rightarrow> error" where
  "Errorf_w prefix err = WrapError (prefix @ Error err) err"

text \<open>
  A \<open>context.Context\<close> as one invocation sees it on entry: \<open>ctx_err\<close> is what \<open>ctx.Err()\<close>
  returns there (\<open>None\<close> while the context is live).
\<close>

record Context =
  ctx_err :: "error option"

text \<open>
  \<open>type Effector func(ctx context.Context) (string, error)\<close>. The wrapped function is opaque
  and may have effects; its behaviour in a sequential run is the sequence of its outcomes, so
  it is a function of the context and of the number of invocations made before. That number
  is threaded through every decorator and counts the invocations of the wrapped function.
\<close>

type_synonym result = "string \<times> error option"
type_synonym Effector = "Context \<Rightarrow> nat \<Rightarrow> result"

definition invoke :: "Effector \<Rightarrow> Context \<Rightarrow> nat \<Rightarrow> result \<times> nat" where
  "invoke effector ctx calls = (effector ctx calls, Suc calls)"

text \<open>
  Machine integers: Go's \<open>int\<close> and \<open>time.Duration\<close> are 64-bit two's complement; \<open>wrap64\<close>
  is the wrap-around of their arithmetic, written out on \<open>int\<close>. A \<open>time.Time\<close> is the
  number of nanoseconds since the zero \<open>Time\<close>; \<open>t.Add(d)\<close> is \<open>t + d\<close>, \<open>t.After(u)\<close> is
  \<open>u < t\<close> and \<open>t.Before(u)\<close> is \<open>t < u\<close>.
\<close>

type_synonym Time = int
type_synonym Duration = int

definition wrap64 :: "int \<Rightarrow> int" where
  "wrap64 x = (x + 2 ^ 63) mod 2 ^ 64 - 2 ^ 63"

definition is_int64 :: "int \<Rightarrow> bool" where
  "is_int64 x \<longleftrightarrow> - (2 ^ 63) \<le> x \<and> x < 2 ^ 63"

definition Second :: Duration where
  "Second = 1000000000"

definition Millisecond :: Duration where
  "Millisecond = 1000000"

section \<open>Retry\<close>

text \<open>
  The \<open>select\<close> after a failed attempt waits for \<open>time.After(delay)\<close> or \<open>ctx.Done()\<close>.
  Which of the two fires is decided outside the program: \<open>Elapsed\<close> when the delay ran out,
  \<open>Done e\<close> when the context ended first, \<open>e\<close> being \<open>ctx.Err()\<close> then.
\<close>

datatype wait = Elapsed | Done error

text \<open>
  \<open>for r := 0; ; r++\<close> of \<open>Retry\<close>, entered at attempt \<open>r\<close>. \<open>sel r\<close> is the outcome of the
  \<open>select\<close> that follows attempt \<open>r\<close>. The counter never overflows: it is incremented only
  while \<open>r < retries\<close>. \<open>log.Printf\<close> is left out.
\<close>

function Retry_loop ::
  "Effector \<Rightarrow> int \<Rightarrow> Duration \<Rightarrow> (nat \<Rightarrow> wait) \<Rightarrow> Context \<Rightarrow> nat \<Rightarrow> nat \<Rightarrow> result \<times> nat"
where
  "Retry_loop effector retries delay sel ctx r calls =
     (let ((response, err), calls') = invoke effector ctx calls in
      if err = None \<or> int r \<ge> retries
      then ((response, err), calls')
      else (case sel r of
              Elapsed \<Rightarrow> Retry_loop effector retries delay sel ctx (Suc r) calls'
            | Done e \<Rightarrow> (('''', Some e), calls')))"
  by pat_completeness auto
termination
  by (relation "measure (\<lambda>(effector, retries, delay, sel, ctx, r, calls). nat (retries - int r))") auto

definition Retry ::
  "Effector \<Rightarrow> int \<Rightarrow> Duration \<Rightarrow> (nat \<Rightarrow> wait) \<Rightarrow> Context \<Rightarrow> nat \<Rightarrow> result \<times> nat" where
  "Retry effector retries delay sel ctx calls = Retry_loop effector retries delay sel ctx 0 calls"

section \<open>Throttle\<close>

text \<open>
  The state captured by the closure that \<open>Throttle\<close> returns: the token count and the
  \<open>sync.Once\<close> that guards the start of the refill goroutine (\<open>True\<close> once it has run).
  Both versions of \<open>Throttle\<close> in the repository share it and start with \<open>tokens = max\<close>.
\<close>

record throttle =
  tokens :: int
  once :: bool

definition Throttle_init :: "int \<Rightarrow> throttle" where
  "Throttle_init max' = \<lparr>tokens = max', once = False\<rparr>"

text \<open>
  One tick of the refill goroutine (\<open>case <-ticker.C\<close>), which \<open>once.Do\<close> starts on the
  first invocation that reaches it. Ticks interleave with the invocations; a run "before any
  refill" has none between them.
\<close>

definition refill_tick :: "int \<Rightarrow> int \<Rightarrow> throttle \<Rightarrow> throttle" where
  "refill_tick max' refill st =
     (if once st
      then (let t = wrap64 (tokens st + refill);
                t = (if t > max' then max' else t)
            in st\<lparr>tokens := t\<rparr>)
      else st)"

text \<open>\<open>Throttle\<close> of \<open>package main\<close> (the version with \<open>main\<close>): no test of the context.\<close>

definition Throttle_main ::
  "Effector \<Rightarrow> int \<Rightarrow> int \<Rightarrow> Duration \<Rightarrow> Context \<Rightarrow> throttle \<Rightarrow> nat \<Rightarrow> result \<times> throttle \<times> nat"
where
  "Throttle_main effector max' refill d ctx st calls =
     (let st = st\<lparr>once := True\<rparr> in
      if tokens st \<le> 0
      then (('''', Some (ErrorString ''too many calls'')), st, calls)
      else (let st = st\<lparr>tokens := wrap64 (tokens st - 1)\<rparr>;
                (r, calls') = invoke effector ctx calls
            in (r, st, calls')))"

text \<open>\<open>Throttle\<close> of \<open>package throttle\<close>: it first tests \<open>ctx.Err()\<close>.\<close>

definition Throttle ::
  "Effector \<Rightarrow> int \<Rightarrow> int \<Rightarrow> Duration \<Rightarrow> Context \<Rightarrow> throttle \<Rightarrow> nat \<Rightarrow> result \<times> throttle \<times> nat"
where
  "Throttle effector max' refill d ctx st calls =
     (if ctx_err ctx \<noteq> None
      then (('''', ctx_err ctx), st, calls)
      else (let st = st\<lparr>once := True\<rparr> in
            if tokens st \<le> 0
            then (('''', Some (ErrorString ''to many fn calls'')), st, calls)
            else (let st = st\<lparr>tokens := wrap64 (tokens st - 1)\<rparr>;
                      (r, calls') = invoke effector ctx calls
                  in (r, st, calls'))))"

text \<open>
  Sequential invocations of a decorated function, one per context of the list, with nothing
  happening in between: each result with the state it leaves, and the final call count.
\<close>

fun in_sequence ::
  "(Context \<Rightarrow> 's \<Rightarrow> nat \<Rightarrow> result \<times> 's \<times> nat) \<Rightarrow> Context list \<Rightarrow> 's \<Rightarrow> nat \<Rightarrow> (result \<times> 's) list \<times> nat"
where
  "in_sequence f [] st calls = ([], calls)"
| "in_sequence f (ctx # ctxs) st calls =
     (let (r, st', calls') = f ctx st calls;
          (rs, calls'') = in_sequence f ctxs st' calls'
      in ((r, st') # rs, calls''))"

section \<open>Timeout\<close>

text \<open>
  \<open>type SlowFunc func(string) (string, error)\<close>. The goroutine runs \<open>slow(data)\<close> and puts
  its outcome in one of two channels of capacity one, \<open>resCh\<close> and \<open>errCh\<close> (an empty channel
  is \<open>None\<close>). The \<open>select\<close> then takes what is ready first; which side wins the race is
  decided outside the program: \<open>CallFirst\<close> when the goroutine has delivered before the
  context ended, \<open>CtxFirst e\<close> when \<open>ctx.Done()\<close> fired first, \<open>e\<close> being \<open>ctx.Err()\<close>.
\<close>

type_synonym SlowFunc = "string \<Rightarrow> result"

datatype race = CallFirst | CtxFirst error

definition deliver :: "SlowFunc \<Rightarrow> string \<Rightarrow> string option \<times> error option" where
  "deliver slow data =
     (let (res, err) = slow data in
      case err of
        Some e \<Rightarrow> (None, Some (Errorf_w ''slow: '' e))
      | None \<Rightarrow> (Some res, None))"

definition Timeout :: "SlowFunc \<Rightarrow> race \<Rightarrow> Context \<Rightarrow> string \<Rightarrow> result" where
  "Timeout slow winner ctx data =
     (let (resCh, errCh) = deliver slow data in
      case winner of
        CtxFirst e \<Rightarrow> ('''', Some e)
      | CallFirst \<Rightarrow>
          (case errCh of
             Some err \<Rightarrow> ('''', Some err)
           | None \<Rightarrow> (case resCh of Some res \<Rightarrow> (res, None) | None \<Rightarrow> ('''', None))))"

section \<open>Circuit breaker\<close>

text \<open>
  \<open>x << d\<close> on a 64-bit \<open>time.Duration\<close> with a count \<open>d \<ge> 0\<close>: the bits shifted out are
  lost, and a count of 64 or more leaves 0.
\<close>

definition shl64 :: "int \<Rightarrow> int \<Rightarrow> int" where
  "shl64 x d = (if d \<ge> 64 then 0 else wrap64 (x * 2 ^ nat d))"

record breaker =
  consecutiveFailures :: int
  lastAttempt :: Time

definition Breaker_init :: "Time \<Rightarrow> breaker" where
  "Breaker_init now = \<lparr>consecutiveFailures = 0, lastAttempt = now\<rparr>"

text \<open>
  The test made under the read lock: \<open>d >= 0\<close> and \<open>!time.Now().After(shouldRetryAt)\<close> with
  \<open>shouldRetryAt := lastAttempt.Add(time.Second * 2 << d)\<close>. In Go \<open>*\<close> and \<open><<\<close> have the
  same precedence and associate to the left.
\<close>

definition rejects :: "int \<Rightarrow> Time \<Rightarrow> breaker \<Rightarrow> bool" where
  "rejects failureThreshold now st =
     (let d = wrap64 (consecutiveFailures st - failureThreshold) in
      d \<ge> 0 \<and>
      (let shouldRetryAt = lastAttempt st + shl64 (Second * 2) d in \<not> now > shouldRetryAt))"

text \<open>
  One invocation of the closure of \<open>Breaker\<close>: \<open>now\<close> is \<open>time.Now()\<close> at the test, \<open>now'\<close>
  is \<open>time.Now()\<close> after the circuit has returned.
\<close>

definition Breaker ::
  "Effector \<Rightarrow> int \<Rightarrow> Context \<Rightarrow> Time \<Rightarrow> Time \<Rightarrow> breaker \<Rightarrow> nat \<Rightarrow> result \<times> breaker \<times> nat"
where
  "Breaker circuit failureThreshold ctx now now' st calls =
     (if rejects failureThreshold now st
      then (('''', Some (ErrorString ''service unreachable'')), st, calls)
      else (let ((response, err), calls') = invoke circuit ctx calls;
                st = st\<lparr>lastAttempt := now'\<rparr>
            in if err \<noteq> None
               then ((response, err),
                     st\<lparr>consecutiveFailures := wrap64 (consecutiveFailures st + 1)\<rparr>, calls')
               else ((response, None), st\<lparr>consecutiveFailures := 0\<rparr>, calls')))"

section \<open>Debounce\<close>

text \<open>
  The variables captured by the closure of \<open>DebounceVersion1\<close>; \<open>threshold\<close> starts as the
  zero \<open>time.Time\<close>, \<open>result\<close> as the empty string and \<open>err\<close> as \<open>nil\<close>.
\<close>

record debounce =
  threshold :: Time
  result :: string
  err :: "error option"

definition DebounceVersion1_init :: debounce where
  "DebounceVersion1_init = \<lparr>threshold = 0, result = '''', err = None\<rparr>"

text \<open>
  One invocation of the closure of \<open>DebounceVersion1\<close>, made while the mutex is free: \<open>now\<close>
  is \<open>time.Now()\<close> at the test, \<open>now'\<close> is \<open>time.Now()\<close> in the deferred function, which runs
  on both paths after the returned values have been fixed.
\<close>

definition DebounceVersion1 ::
  "Effector \<Rightarrow> Duration \<Rightarrow> Context \<Rightarrow> Time \<Rightarrow> Time \<Rightarrow> debounce \<Rightarrow> nat \<Rightarrow> result \<times> debounce \<times> nat"
where
  "DebounceVersion1 circuit d ctx now now' st calls =
     (if now < threshold st
      then ((result st, err st), st\<lparr>threshold := now' + d\<rparr>, calls)
      else (let ((res, e), calls') = invoke circuit ctx calls;
                st = st\<lparr>result := res, err := e\<rparr>
            in ((result st, err st), st\<lparr>threshold := now' + d\<rparr>, calls')))"

text \<open>
  \<open>DebounceVersion2\<close> captures the same three variables (\<open>threshold\<close> starts as
  \<open>time.Now()\<close>) and, besides, the ticker, the \<open>sync.Once\<close> (\<open>once_v2\<close>, \<open>True\<close> once its
  function has returned), the mutex \<open>m\<close> (\<open>True\<close> while it is held) and the goroutine that
  \<open>once.Do\<close> starts (\<open>cleanup\<close>, \<open>True\<close> while it waits in its \<open>m.Lock()\<close>).
\<close>

record debounce_v2 = debounce +
  ticker :: "Duration option"
  once_v2 :: bool
  m :: bool
  cleanup :: bool

definition DebounceVersion2_init :: "Time \<Rightarrow> debounce_v2" where
  "DebounceVersion2_init now =
     \<lparr>threshold = now, result = '''', err = None,
      ticker = None, once_v2 = False, m = False, cleanup = False\<rparr>"

text \<open>
  \<open>m.Lock()\<close> on a \<open>sync.Mutex\<close>, which is not reentrant: it returns when the mutex is
  free and otherwise waits for an \<open>Unlock\<close>. Every \<open>Unlock\<close> of \<open>DebounceVersion2\<close> is made
  by the goroutine that holds \<open>m\<close>, so a \<open>Lock\<close> by the holder itself never returns: \<open>None\<close>.
\<close>

definition Lock :: "bool \<Rightarrow> bool option" where
  "Lock held = (if held then None else Some True)"

text \<open>
  What the \<open>select\<close> of the polling loop receives: a tick, with \<open>time.Now()\<close> read after it
  (\<open>Inl now\<close>), or the end of the context, with \<open>ctx.Err()\<close> (\<open>Inr e\<close>). \<open>evs i\<close> is what the
  \<open>i\<close>-th pass of the loop receives.
\<close>

type_synonym poll_event = "Time + error"

text \<open>
  The \<open>for { select { ... } }\<close> inside the function given to \<open>once.Do\<close>. It runs in the
  invoking goroutine, after \<open>go func() { m.Lock(); ticker.Stop(); once = sync.Once{};
  m.Unlock() }()\<close>. \<open>None\<close>: the loop never returns.
\<close>

partial_function (option) poll ::
  "Effector \<Rightarrow> Context \<Rightarrow> (nat \<Rightarrow> poll_event) \<Rightarrow> nat \<Rightarrow> debounce_v2 \<Rightarrow> nat \<Rightarrow> (debounce_v2 \<times> nat) option"
where
  "poll circuit ctx evs i st calls =
     (case evs i of
        Inl now \<Rightarrow>
          do {
            held \<leftarrow> Lock (m st);
            let st = st\<lparr>m := held\<rparr>;
            if now > threshold st
            then (let ((res, e), calls') = invoke circuit ctx calls
                  in Some (st\<lparr>result := res, err := e, m := False\<rparr>, calls'))
            else poll circuit ctx evs (Suc i) (st\<lparr>m := False\<rparr>) calls
          }
      | Inr e \<Rightarrow>
          do {
            held \<leftarrow> Lock (m st);
            let st = st\<lparr>m := held\<rparr>;
            Some (st\<lparr>result := '''', err := Some e, m := False\<rparr>, calls)
          })"

text \<open>
  One invocation of the closure of \<open>DebounceVersion2\<close>; \<open>now\<close> is \<open>time.Now()\<close> when
  \<open>threshold\<close> is set. \<open>None\<close>: the invocation never returns. The deferred \<open>m.Unlock()\<close>
  runs after the returned values have been fixed.
\<close>

definition DebounceVersion2 ::
  "Effector \<Rightarrow> Duration \<Rightarrow> Context \<Rightarrow> Time \<Rightarrow> (nat \<Rightarrow> poll_event) \<Rightarrow> debounce_v2 \<Rightarrow> nat
   \<Rightarrow> (result \<times> debounce_v2 \<times> nat) option"
where
  "DebounceVersion2 circuit d ctx now evs st calls =
     do {
       held \<leftarrow> Lock (m st);
       let st = st\<lparr>m := held, threshold := now + d\<rparr>;
       (st, calls') \<leftarrow>
         (if once_v2 st then Some (st, calls)
          else do {
            let st = st\<lparr>ticker := Some (Millisecond * 100), cleanup := True\<rparr>;
            (st, calls') \<leftarrow> poll circuit ctx evs 0 st calls;
            Some (st\<lparr>once_v2 := True\<rparr>, calls')
          });
       Some ((result st, err st), st\<lparr>m := False\<rparr>, calls')
     }"

text \<open>
  The goroutine started by \<open>once.Do\<close>, once its \<open>m.Lock()\<close> has returned: it stops the
  ticker and resets the \<open>sync.Once\<close>.
\<close>

definition run_cleanup :: "debounce_v2 \<Rightarrow> debounce_v2 option" where
  "run_cleanup st =
     do {
       held \<leftarrow> Lock (m st);
       Some (st\<lparr>ticker := None, once_v2 := False, cleanup := False, m := False\<rparr>)
     }"

text \<open>Concrete inputs used to exercise the theorems.\<close>

definition background :: Context where
  "background = \<lparr>ctx_err = None\<rparr>"

definition cancelled :: Context where
  "cancelled = \<lparr>ctx_err = Some Canceled\<rparr>"

definition always_fail :: Effector where
  "always_fail ctx n = ('''', Some (ErrorString ''boom''))"

definition always_ok :: Effector where
  "always_ok ctx n = (''success'', None)"

definition never_done :: "nat \<Rightarrow> wait" where
  "never_done r = Elapsed"

definition done_at_once :: "nat \<Rightarrow> wait" where
  "done_at_once r = Done Canceled"

definition done_in_second_wait :: "nat \<Rightarrow> wait" where
  "done_in_second_wait r = (if r = 0 then Elapsed else Done DeadlineExceeded)"

definition slow_fail :: SlowFunc where
  "slow_fail data = (''partial'', Some (ErrorString ''boom''))"

definition slow_ok :: SlowFunc where
  "slow_ok data = (''echo: '' @ data, None)"

definition ticks_after :: "Time \<Rightarrow> nat \<Rightarrow> poll_event" where
  "ticks_after t i = Inl (t + (int i + 1) * (Millisecond * 100))"

declare Retry_loop.simps [simp del]

section \<open>Retry: theorems\<close>

lemma Retry_loop_unfold:
  "Retry_loop effector retries delay sel ctx r calls =
     (if snd (effector ctx calls) = None \<or> int r \<ge> retries
      then (effector ctx calls, Suc calls)
      else (case sel r of
              Elapsed \<Rightarrow> Retry_loop effector retries delay sel ctx (Suc r) (Suc calls)
            | Done e \<Rightarrow> (([], Some e), Suc calls)))"
  by (subst Retry_loop.simps) (auto simp add: invoke_def split: prod.splits)

text \<open>
  While the attempts fail, the waits run out and the bound is not reached, the loop only
  moves on: \<open>k\<close> such rounds lead from attempt \<open>r\<close> to attempt \<open>r + k\<close>.
\<close>

lemma Retry_loop_skip:
  "(\<forall>i<k. snd (effector ctx (calls + i)) \<noteq> None \<and> sel (r + i) = Elapsed) \<Longrightarrow>
   int (r + k) \<le> retries \<Longrightarrow>
   Retry_loop effector retries delay sel ctx r calls =
   Retry_loop effector retries delay sel ctx (r + k) (calls + k)"
proof (induction k arbitrary: r calls)
  case 0
  show ?case by simp
next
  case (Suc k)
  from Suc.prems(1) have head: "snd (effector ctx calls) \<noteq> None" "sel r = Elapsed"
    by (metis add.right_neutral zero_less_Suc)+
  from Suc.prems(2) have below: "\<not> int r \<ge> retries" by simp
  have step: "Retry_loop effector retries delay sel ctx r calls =
              Retry_loop effector retries delay sel ctx (Suc r) (Suc calls)"
    using head below by (subst Retry_loop_unfold) auto
  have rest: "\<forall>i<k. snd (effector ctx (Suc calls + i)) \<noteq> None \<and> sel (Suc r + i) = Elapsed"
  proof (intro allI impI)
    fix i assume "i < k"
    then have "Suc i < Suc k" by simp
    with Suc.prems(1)
    have "snd (effector ctx (calls + Suc i)) \<noteq> None \<and> sel (r + Suc i) = Elapsed"
      by blast
    then show "snd (effector ctx (Suc calls + i)) \<noteq> None \<and> sel (Suc r + i) = Elapsed"
      by simp
  qed
  have "int (Suc r + k) \<le> retries" using Suc.prems(2) by simp
  from Suc.IH [OF rest this] step show ?case by simp
qed

text \<open>
  C4, as claimed: for every \<open>maxRetries = n \<ge> 0\<close> and every wrapped function that fails on
  all attempts, \<open>Retry\<close> invokes it exactly \<open>n + 1\<close> times and returns the last attempt's
  own error. It does not when the context ends during a wait: with \<open>n = 1\<close> and the context
  ending in the wait after the first failure, the function is invoked once, not twice, and
  the error returned is the context's.
\<close>

theorem Retry_cut_short:
  "always_fail background 0 = ('''', Some (ErrorString ''boom'')) \<and>
   done_at_once 0 = Done Canceled \<and>
   Retry always_fail 1 Second done_at_once background 0 = (('''', Some Canceled), 1)"
  by (simp add: Retry_def Retry_loop_unfold [of _ _ _ _ _ 0] always_fail_def done_at_once_def)

text \<open>
  C4, amended. For every \<open>maxRetries = n \<ge> 0\<close> and every wrapped function that fails on all
  \<open>n + 1\<close> attempts, in a run whose inter-attempt waits all run out (the context does not
  end during a wait), \<open>Retry\<close> invokes the function exactly \<open>n + 1\<close> times and returns the
  pair of the last attempt itself, so the error is the function's own.
\<close>

theorem Retry_exhausts:
  assumes fails: "\<forall>i\<le>n. snd (effector ctx (calls + i)) \<noteq> None"
    and waits: "\<forall>i<n. sel i = Elapsed"
  shows "Retry effector (int n) delay sel ctx calls = (effector ctx (calls + n), calls + n + 1)"
proof -
  have "\<forall>i<n. snd (effector ctx (calls + i)) \<noteq> None \<and> sel (0 + i) = Elapsed"
    using fails waits by simp
  moreover have "int (0 + n) \<le> int n" by simp
  ultimately have "Retry_loop effector (int n) delay sel ctx 0 calls =
                   Retry_loop effector (int n) delay sel ctx (0 + n) (calls + n)"
    by (rule Retry_loop_skip)
  moreover have "Retry_loop effector (int n) delay sel ctx n (calls + n) =
                 (effector ctx (calls + n), calls + n + 1)"
    by (subst Retry_loop_unfold) auto
  ultimately show ?thesis by (simp add: Retry_def)
qed

theorem Retry_exhausts_witness:
  "Retry always_fail (int 2) Second never_done background 0 =
     (('''', Some (ErrorString ''boom'')), 3)"
  using Retry_exhausts [of 2 always_fail background 0 never_done Second]
  by (simp add: always_fail_def never_done_def)

text \<open>
  C7. When the context ends while \<open>Retry\<close> waits after a failed attempt (the wait after
  attempt \<open>k\<close>, the earlier waits having run out and the bound not being reached), the result
  is the empty string with the context's error \<open>ctx.Err()\<close>, not the function's last error,
  and the function has been invoked \<open>k + 1\<close> times: no attempt follows.
\<close>

theorem Retry_cancelled_wait:
  assumes fails: "\<forall>i\<le>k. snd (effector ctx (calls + i)) \<noteq> None"
    and waits: "\<forall>i<k. sel i = Elapsed"
    and more: "int k < retries"
    and ended: "sel k = Done e"
  shows "Retry effector retries delay sel ctx calls = (('''', Some e), calls + k + 1)"
proof -
  have "\<forall>i<k. snd (effector ctx (calls + i)) \<noteq> None \<and> sel (0 + i) = Elapsed"
    using fails waits by simp
  moreover have "int (0 + k) \<le> retries" using more by simp
  ultimately have "Retry_loop effector retries delay sel ctx 0 calls =
                   Retry_loop effector retries delay sel ctx (0 + k) (calls + k)"
    by (rule Retry_loop_skip)
  moreover have "Retry_loop effector retries delay sel ctx k (calls + k) =
                 (('''', Some e), calls + k + 1)"
    using fails more ended by (subst Retry_loop_unfold) auto
  ultimately show ?thesis by (simp add: Retry_def)
qed

theorem Retry_cancelled_wait_witness:
  "int 1 < 5 \<and> done_in_second_wait 1 = Done DeadlineExceeded \<and>
   Retry always_fail 5 Second done_in_second_wait background 0 =
     (('''', Some DeadlineExceeded), 2)"
  using Retry_cancelled_wait [of 1 always_fail background 0 done_in_second_wait 5
      DeadlineExceeded Second]
  by (simp add: always_fail_def done_in_second_wait_def)

text \<open>
  C10. For every \<open>retries \<le> 0\<close>, negative values included, \<open>Retry\<close> invokes the wrapped
  function exactly once and returns that attempt's value and error as they are, success or
  failure, without reaching the \<open>select\<close> (no delay, no retry).
\<close>

theorem Retry_nonpositive_single_attempt:
  "retries \<le> 0 \<Longrightarrow>
   Retry effector retries delay sel ctx calls = (effector ctx calls, Suc calls)"
  by (simp add: Retry_def Retry_loop_unfold [of _ _ _ _ _ 0])

theorem Retry_nonpositive_single_attempt_witness:
  "(-3::int) \<le> 0 \<and>
   Retry always_fail (-3) Second done_at_once background 0 = (always_fail background 0, Suc 0)"
  using Retry_nonpositive_single_attempt [of "-3" always_fail Second done_at_once background 0]
  by simp

section \<open>Throttle: theorems\<close>

text \<open>
  C6. With \<open>max = 3\<close>, \<open>refill = 1\<close> and a period of one second, five invocations in sequence
  with no refill tick between them give three invocations of the wrapped function, each
  taking one token (2, 1, 0 are left) and returning the function's own pair, and then two
  rate-limit errors that leave the call count alone. This holds for the version with \<open>main\<close>
  whatever the contexts are, and for the version of \<open>package throttle\<close> when none of the
  five contexts is cancelled on entry.
\<close>

theorem Throttle_three_then_limited:
  "in_sequence (Throttle_main effector 3 1 Second) [c1, c2, c3, c4, c5] (Throttle_init 3) calls =
     ([(effector c1 calls, \<lparr>tokens = 2, once = True\<rparr>),
       (effector c2 (calls + 1), \<lparr>tokens = 1, once = True\<rparr>),
       (effector c3 (calls + 2), \<lparr>tokens = 0, once = True\<rparr>),
       (('''', Some (ErrorString ''too many calls'')), \<lparr>tokens = 0, once = True\<rparr>),
       (('''', Some (ErrorString ''too many calls'')), \<lparr>tokens = 0, once = True\<rparr>)],
      calls + 3) \<and>
   (ctx_err c1 = None \<and> ctx_err c2 = None \<and> ctx_err c3 = None \<and> ctx_err c4 = None \<and>
    ctx_err c5 = None \<longrightarrow>
    in_sequence (Throttle effector 3 1 Second) [c1, c2, c3, c4, c5] (Throttle_init 3) calls =
      ([(effector c1 calls, \<lparr>tokens = 2, once = True\<rparr>),
        (effector c2 (calls + 1), \<lparr>tokens = 1, once = True\<rparr>),
        (effector c3 (calls + 2), \<lparr>tokens = 0, once = True\<rparr>),
        (('''', Some (ErrorString ''to many fn calls'')), \<lparr>tokens = 0, once = True\<rparr>),
        (('''', Some (ErrorString ''to many fn calls'')), \<lparr>tokens = 0, once = True\<rparr>)],
       calls + 3))"
  by (simp add: Throttle_main_def Throttle_def Throttle_init_def invoke_def wrap64_def Let_def
      numeral_3_eq_3)

theorem Throttle_three_then_limited_witness:
  "ctx_err background = None \<and>
   in_sequence (Throttle always_ok 3 1 Second)
       [background, background, background, background, background] (Throttle_init 3) 0 =
     ([((''success'', None), \<lparr>tokens = 2, once = True\<rparr>),
       ((''success'', None), \<lparr>tokens = 1, once = True\<rparr>),
       ((''success'', None), \<lparr>tokens = 0, once = True\<rparr>),
       (('''', Some (ErrorString ''to many fn calls'')), \<lparr>tokens = 0, once = True\<rparr>),
       (('''', Some (ErrorString ''to many fn calls'')), \<lparr>tokens = 0, once = True\<rparr>)],
      3)"
  using Throttle_three_then_limited
    [of always_ok background background background background background 0]
  by (simp add: background_def always_ok_def)

text \<open>
  The version of \<open>package throttle\<close>, with a context that is cancelled on entry, returns
  the context's error and touches neither the tokens, nor the \<open>sync.Once\<close>, nor the wrapped
  function.
\<close>

lemma Throttle_cancelled_on_entry:
  "ctx_err ctx = Some e \<Longrightarrow>
   Throttle effector max' refill d ctx st calls = (('''', Some e), st, calls)"
  by (simp add: Throttle_def)

text \<open>
  C8. A \<open>Throttle\<close> invoked with a context that is already cancelled returns the context's
  error at once, without invoking the wrapped function and without taking a token. The
  version with \<open>main\<close> has no such test: invoked with a cancelled context and three tokens,
  it takes a token and invokes the wrapped function.
\<close>

theorem Throttle_main_ignores_cancellation:
  "ctx_err cancelled = Some Canceled \<and>
   Throttle_main always_ok 3 1 Second cancelled (Throttle_init 3) 0 =
     ((''success'', None), \<lparr>tokens = 2, once = True\<rparr>, 1)"
  by (simp add: Throttle_main_def Throttle_init_def invoke_def wrap64_def Let_def always_ok_def
      cancelled_def)

section \<open>Timeout: theorems\<close>

text \<open>
  C2, as claimed: \<open>Timeout\<close> returns the value and error of a call that completes before the
  context ends unaltered. It does not when the call fails: the value is dropped and the
  error comes back wrapped by \<open>fmt.Errorf("slow: %w", err)\<close>.
\<close>

theorem Timeout_alters_failure:
  "Timeout slow_fail CallFirst background ''in'' =
     ('''', Some (WrapError ''slow: boom'' (ErrorString ''boom''))) \<and>
   Timeout slow_fail CallFirst background ''in'' \<noteq> slow_fail ''in''"
  by (simp add: Timeout_def deliver_def Errorf_w_def slow_fail_def)

text \<open>
  C2, amended. For every call that completes before the context ends: when it succeeds,
  \<open>Timeout\<close> returns its value with a \<open>nil\<close> error, unaltered; when it fails with \<open>e\<close>,
  \<open>Timeout\<close> returns the empty string and an error that wraps \<open>e\<close> (\<open>errors.Unwrap\<close> gives
  \<open>e\<close> back) and whose message is \<open>"slow: "\<close> followed by the message of \<open>e\<close>.
\<close>

theorem Timeout_call_first:
  "(snd (slow data) = None \<longrightarrow> Timeout slow CallFirst ctx data = slow data) \<and>
   (\<forall>e. snd (slow data) = Some e \<longrightarrow>
      (\<exists>w. Timeout slow CallFirst ctx data = ('''', Some w) \<and>
           Unwrap w = Some e \<and> Error w = ''slow: '' @ Error e))"
  by (auto simp add: Timeout_def deliver_def Errorf_w_def split: prod.splits option.splits)

theorem Timeout_call_first_witness:
  "snd (slow_ok ''in'') = None \<and>
   Timeout slow_ok CallFirst background ''in'' = (''echo: in'', None) \<and>
   snd (slow_fail ''in'') = Some (ErrorString ''boom'') \<and>
   (\<exists>w. Timeout slow_fail CallFirst background ''in'' = ('''', Some w) \<and>
        Unwrap w = Some (ErrorString ''boom'') \<and> Error w = ''slow: boom'')"
  using Timeout_call_first [of slow_ok "''in''" background]
    Timeout_call_first [of slow_fail "''in''" background]
  by (simp add: slow_ok_def slow_fail_def)

text \<open>When the context ends first, its error is returned, whatever the call does.\<close>

lemma Timeout_ctx_first:
  "Timeout slow (CtxFirst e) ctx data = ('''', Some e)"
  by (simp add: Timeout_def split: prod.splits)

section \<open>Circuit breaker: theorems\<close>

lemma wrap64_id: "is_int64 x \<Longrightarrow> wrap64 x = x"
  by (simp add: wrap64_def is_int64_def)

text \<open>Up to \<open>d = 32\<close> the shifted duration is \<open>2 ^ (d + 1)\<close> seconds; \<open>d = 33\<close> overflows.\<close>

lemma shl64_in_range:
  assumes "0 \<le> d" "d \<le> 32"
  shows "shl64 (Second * 2) d = 2 ^ nat (d + 1) * Second"
proof -
  have "(2::int) ^ nat d \<le> 2 ^ 32"
    using assms by (intro power_increasing) auto
  then have "Second * 2 * 2 ^ nat d \<le> 2000000000 * 2 ^ 32"
    by (simp add: Second_def)
  moreover have "0 \<le> Second * 2 * (2::int) ^ nat d"
    by (simp add: Second_def)
  ultimately have "is_int64 (Second * 2 * 2 ^ nat d)"
    by (simp add: is_int64_def)
  then have "shl64 (Second * 2) d = Second * 2 * 2 ^ nat d"
    using assms by (simp add: shl64_def wrap64_id)
  also have "\<dots> = 2 ^ nat (d + 1) * Second"
    using assms by (simp add: nat_add_distrib)
  finally show ?thesis .
qed

lemma rejects_in_range:
  assumes "is_int64 (consecutiveFailures st - failureThreshold)"
    and "consecutiveFailures st - failureThreshold \<le> 32"
  shows "rejects failureThreshold now st \<longleftrightarrow>
         0 \<le> consecutiveFailures st - failureThreshold \<and>
         now \<le> lastAttempt st + 2 ^ nat (consecutiveFailures st - failureThreshold + 1) * Second"
  using assms by (auto simp add: rejects_def wrap64_id Let_def shl64_in_range)

lemma Breaker_rejected:
  "rejects failureThreshold now st \<Longrightarrow>
   Breaker circuit failureThreshold ctx now now' st calls =
     (('''', Some (ErrorString ''service unreachable'')), st, calls)"
  by (simp add: Breaker_def)

lemma Breaker_admitted:
  "\<not> rejects failureThreshold now st \<Longrightarrow>
   Breaker circuit failureThreshold ctx now now' st calls =
     (circuit ctx calls,
      st\<lparr>lastAttempt := now',
         consecutiveFailures :=
           (if snd (circuit ctx calls) \<noteq> None then wrap64 (consecutiveFailures st + 1) else 0)\<rparr>,
      Suc calls)"
  by (auto simp add: Breaker_def invoke_def Let_def split: prod.splits)

text \<open>
  C1. With \<open>d = consecutiveFailures - threshold\<close>, an invocation made when \<open>d \<ge> 0\<close> and the
  time is not after \<open>lastAttempt + 2 ^ (d + 1)\<close> seconds is to be rejected without invoking
  the circuit. A breaker built with threshold \<open>-33\<close> at time 1000 and invoked one second
  later has \<open>d = 33\<close> and is far inside the window of \<open>2 ^ 34\<close> seconds, yet the circuit is
  invoked: \<open>time.Second * 2 << 33\<close> overflows the 64-bit duration to a negative value.
\<close>

theorem Breaker_backoff_overflow:
  "wrap64 (consecutiveFailures (Breaker_init 1000) - (- 33)) = 33 \<and>
   1000 + Second \<le> lastAttempt (Breaker_init 1000) + 2 ^ (33 + 1) * Second \<and>
   shl64 (Second * 2) 33 = - 1266874889709551616 \<and>
   Breaker always_ok (- 33) background (1000 + Second) (1000 + Second) (Breaker_init 1000) 0 =
     ((''success'', None), \<lparr>consecutiveFailures = 0, lastAttempt = 1000 + Second\<rparr>, 1)"
  by (simp add: Breaker_def rejects_def Breaker_init_def wrap64_def shl64_def Second_def
      invoke_def always_ok_def Let_def)

text \<open>
  C9, as claimed: in every state of the breaker, the invocation that follows a successful
  trial call is not short-circuited. With threshold 0 it is: the trial at 3 s succeeds and
  leaves \<open>consecutiveFailures = 0\<close>, which is not below the threshold, so the invocation at
  4 s falls in the window of 2 s after the trial and is rejected.
\<close>

theorem Breaker_threshold_zero:
  "Breaker always_ok 0 background (3 * Second) (3 * Second) (Breaker_init 0) 0 =
     ((''success'', None), \<lparr>consecutiveFailures = 0, lastAttempt = 3 * Second\<rparr>, 1) \<and>
   Breaker always_ok 0 background (4 * Second) (4 * Second)
       \<lparr>consecutiveFailures = 0, lastAttempt = 3 * Second\<rparr> 1 =
     (('''', Some (ErrorString ''service unreachable'')),
      \<lparr>consecutiveFailures = 0, lastAttempt = 3 * Second\<rparr>, 1)"
  by (simp add: Breaker_def rejects_def Breaker_init_def wrap64_def shl64_def Second_def
      invoke_def always_ok_def Let_def)

text \<open>
  C9, amended. For a threshold of at least 1 and a failure count below the largest \<open>int\<close>:
  an invocation that is not rejected invokes the circuit once, returns its pair and sets
  \<open>lastAttempt\<close>; when the circuit succeeds, \<open>consecutiveFailures\<close> becomes 0 and the next
  invocation, whenever it is made, invokes the circuit again; when the circuit fails,
  \<open>consecutiveFailures\<close> grows by 1 and the failure is returned.
\<close>

theorem Breaker_outcome:
  assumes thr: "1 \<le> failureThreshold" "is_int64 failureThreshold"
    and cf: "is_int64 (consecutiveFailures st)" "consecutiveFailures st < 2 ^ 63 - 1"
    and admitted: "\<not> rejects failureThreshold now st"
  shows "\<exists>st'. Breaker circuit failureThreshold ctx now now' st calls =
                 (circuit ctx calls, st', Suc calls) \<and>
           lastAttempt st' = now' \<and>
           (snd (circuit ctx calls) = None \<longrightarrow>
              consecutiveFailures st' = 0 \<and>
              (\<forall>ctx2 t t'. Breaker circuit failureThreshold ctx2 t t' st' (Suc calls) =
                 (circuit ctx2 (Suc calls),
                  st'\<lparr>lastAttempt := t', consecutiveFailures :=
                       (if snd (circuit ctx2 (Suc calls)) \<noteq> None then 1 else 0)\<rparr>,
                  Suc (Suc calls)))) \<and>
           (snd (circuit ctx calls) \<noteq> None \<longrightarrow>
              consecutiveFailures st' = consecutiveFailures st + 1)"
proof -
  let ?st' = "st\<lparr>lastAttempt := now',
         consecutiveFailures :=
           (if snd (circuit ctx calls) \<noteq> None then wrap64 (consecutiveFailures st + 1) else 0)\<rparr>"
  have run: "Breaker circuit failureThreshold ctx now now' st calls =
             (circuit ctx calls, ?st', Suc calls)"
    using admitted by (rule Breaker_admitted)
  have inc: "wrap64 (consecutiveFailures st + 1) = consecutiveFailures st + 1"
    using cf by (intro wrap64_id) (simp add: is_int64_def)
  have closed: "\<not> rejects failureThreshold t s" if "consecutiveFailures s = 0" for t s
  proof -
    have "is_int64 (0 - failureThreshold)"
      using thr by (simp add: is_int64_def)
    then have "wrap64 (0 - failureThreshold) = 0 - failureThreshold"
      by (rule wrap64_id)
    then show ?thesis using thr that by (simp add: rejects_def Let_def)
  qed
  have next_call: "Breaker circuit failureThreshold ctx2 t t' ?st' (Suc calls) =
      (circuit ctx2 (Suc calls),
       ?st'\<lparr>lastAttempt := t', consecutiveFailures :=
             (if snd (circuit ctx2 (Suc calls)) \<noteq> None then 1 else 0)\<rparr>,
       Suc (Suc calls))" if ok: "snd (circuit ctx calls) = None" for ctx2 t t'
  proof -
    have zero: "consecutiveFailures ?st' = 0" using ok by simp
    have "wrap64 (0 + 1) = 1" by (simp add: wrap64_def)
    moreover from closed [OF zero] have "\<not> rejects failureThreshold t ?st'" .
    ultimately show ?thesis using zero by (simp add: Breaker_admitted)
  qed
  show ?thesis
    using run inc next_call by (intro exI [of _ ?st']) auto
qed

theorem Breaker_outcome_witness:
  "1 \<le> (3::int) \<and> is_int64 3 \<and>
   \<not> rejects 3 (3 * Second) \<lparr>consecutiveFailures = 3, lastAttempt = 0\<rparr> \<and>
   (\<exists>st'. Breaker always_ok 3 background (3 * Second) (3 * Second)
              \<lparr>consecutiveFailures = 3, lastAttempt = 0\<rparr> 0 =
            ((''success'', None), st', Suc 0) \<and>
          consecutiveFailures st' = 0 \<and>
          snd (snd (Breaker always_ok 3 background (4 * Second) (4 * Second) st' (Suc 0))) =
            Suc (Suc 0))"
proof -
  let ?st = "\<lparr>consecutiveFailures = 3, lastAttempt = 0\<rparr>"
  have h1: "1 \<le> (3::int)" by simp
  have h2: "is_int64 3" by (simp add: is_int64_def)
  have h3: "is_int64 (consecutiveFailures ?st)" by (simp add: is_int64_def)
  have h4: "consecutiveFailures ?st < 2 ^ 63 - 1" by simp
  have h5: "\<not> rejects 3 (3 * Second) ?st"
    by (simp add: rejects_def wrap64_def shl64_def Second_def Let_def)
  have ok: "snd (always_ok c n) = None" for c n
    by (simp add: always_ok_def)
  from Breaker_outcome [OF h1 h2 h3 h4 h5, of always_ok background "3 * Second" 0]
  obtain st' where
    run: "Breaker always_ok 3 background (3 * Second) (3 * Second) ?st 0 =
          (always_ok background 0, st', Suc 0)"
    and zero: "consecutiveFailures st' = 0"
    and after: "Breaker always_ok 3 background (4 * Second) (4 * Second) st' (Suc 0) =
          (always_ok background (Suc 0),
           st'\<lparr>lastAttempt := 4 * Second, consecutiveFailures := 0\<rparr>, Suc (Suc 0))"
    using ok by auto
  from run have "Breaker always_ok 3 background (3 * Second) (3 * Second) ?st 0 =
                 ((''success'', None), st', Suc 0)"
    by (simp add: always_ok_def)
  with zero after h1 h2 h5 show ?thesis by auto
qed

section \<open>Debounce: theorems\<close>

text \<open>
  C3, as claimed: an invocation of \<open>DebounceVersion1\<close> made before \<open>threshold\<close> leaves
  \<open>threshold\<close> as it is. It does not: with a cooldown of 100 ms and \<open>threshold\<close> at 100 ms,
  an invocation at 10 ms returns the cached pair without invoking the circuit, and the
  deferred function moves \<open>threshold\<close> to 110 ms.
\<close>

theorem DebounceVersion1_threshold_moves:
  "10 * Millisecond < threshold \<lparr>threshold = 100 * Millisecond, result = ''a'', err = None\<rparr> \<and>
   DebounceVersion1 always_ok (100 * Millisecond) background (10 * Millisecond) (10 * Millisecond)
       \<lparr>threshold = 100 * Millisecond, result = ''a'', err = None\<rparr> 1 =
     ((''a'', None), \<lparr>threshold = 110 * Millisecond, result = ''a'', err = None\<rparr>, 1) \<and>
   110 * Millisecond \<noteq> 100 * Millisecond"
  by (simp add: DebounceVersion1_def Millisecond_def)

text \<open>
  C3, amended. Every invocation of \<open>DebounceVersion1\<close>, whether or not the circuit runs, sets
  \<open>threshold\<close> to the time at which it returns plus the cooldown. An invocation made before
  \<open>threshold\<close> returns the cached pair, does not invoke the circuit and keeps the cache; any
  other invocation invokes the circuit once, returns its pair and caches it.
\<close>

theorem DebounceVersion1_every_call:
  assumes "DebounceVersion1 circuit d ctx now now' st calls = (r, st', calls')"
  shows "threshold st' = now' + d \<and>
         (now < threshold st \<longrightarrow>
            r = (result st, err st) \<and> calls' = calls \<and>
            result st' = result st \<and> err st' = err st) \<and>
         (\<not> now < threshold st \<longrightarrow>
            r = circuit ctx calls \<and> calls' = Suc calls \<and>
            (result st', err st') = circuit ctx calls)"
  using assms
  by (auto simp add: DebounceVersion1_def invoke_def Let_def split: prod.splits if_splits)

theorem DebounceVersion1_every_call_witness:
  "DebounceVersion1 always_ok (100 * Millisecond) background (10 * Millisecond) (10 * Millisecond)
       \<lparr>threshold = 100 * Millisecond, result = ''a'', err = None\<rparr> 1 =
     ((''a'', None), \<lparr>threshold = 110 * Millisecond, result = ''a'', err = None\<rparr>, 1) \<and>
   threshold \<lparr>threshold = 110 * Millisecond, result = ''a'', err = None\<rparr> =
     10 * Millisecond + 100 * Millisecond \<and>
   DebounceVersion1 always_ok (100 * Millisecond) background (150 * Millisecond)
       (150 * Millisecond) \<lparr>threshold = 110 * Millisecond, result = ''a'', err = None\<rparr> 1 =
     ((''success'', None),
      \<lparr>threshold = 250 * Millisecond, result = ''success'', err = None\<rparr>, 2) \<and>
   (''success'', None) = always_ok background 1"
  using DebounceVersion1_every_call [of always_ok "100 * Millisecond" background
      "10 * Millisecond" "10 * Millisecond"
      "\<lparr>threshold = 100 * Millisecond, result = ''a'', err = None\<rparr>" 1
      "(''a'', None)" "\<lparr>threshold = 110 * Millisecond, result = ''a'', err = None\<rparr>" 1]
    DebounceVersion1_every_call [of always_ok "100 * Millisecond" background
      "150 * Millisecond" "150 * Millisecond"
      "\<lparr>threshold = 110 * Millisecond, result = ''a'', err = None\<rparr>" 1
      "(''success'', None)"
      "\<lparr>threshold = 250 * Millisecond, result = ''success'', err = None\<rparr>" 2]
  by (simp add: DebounceVersion1_def Millisecond_def invoke_def always_ok_def)

text \<open>
  Inside \<open>once.Do\<close> the invoking goroutine holds \<open>m\<close>; whatever the \<open>select\<close> receives, the
  loop then calls \<open>m.Lock()\<close> and waits for itself.
\<close>

lemma poll_blocked: "m st \<Longrightarrow> poll circuit ctx evs i st calls = None"
  by (subst poll.simps) (simp add: Lock_def split: sum.splits)

text \<open>
  So no invocation returns while the \<open>sync.Once\<close> has not completed, and it never completes:
  the first invocation waits in the loop, the later ones in their first \<open>m.Lock()\<close>.
\<close>

lemma DebounceVersion2_blocked:
  "\<not> once_v2 st \<Longrightarrow> DebounceVersion2 circuit d ctx now evs st calls = None"
  by (cases "m st") (simp_all add: DebounceVersion2_def Lock_def poll_blocked)

text \<open>
  C5. An invocation of the deferred variant is to push the deadline to now plus the cooldown
  and return the pair cached before, the circuit running once after the burst. The first
  invocation of \<open>DebounceVersion2\<close>, here with a cooldown of one second, a context that never
  ends and a tick every 100 ms, does not return at all, and the circuit is never invoked.
\<close>

theorem DebounceVersion2_first_call_never_returns:
  "DebounceVersion2 always_ok Second background 0 (ticks_after 0) (DebounceVersion2_init 0) 0 =
     None"
  by (simp add: DebounceVersion2_blocked DebounceVersion2_init_def)

end
